theory Spec2Isabelle
  imports Main "HOL-Library.Sublist"
begin

section \<open>The homework status bot (homework.py)\<close>

text \<open>
  The program polls a review service over HTTP, validates the decoded answer, turns the
  first homework record into a message and sends it to a chat. Every function of
  \<^verbatim>\<open>homework.py\<close> is embedded below under its own name. A function that logs,
  raises or talks to the outside world returns a pair: what the call produced (the raised
  exception on the left, the returned value on the right) and the list of effects it
  performed, in order.
\<close>

subsection \<open>Python values\<close>

text \<open>
  \<^verbatim>\<open>response.json()\<close> yields \<^verbatim>\<open>None\<close>, a \<^verbatim>\<open>bool\<close>, an \<^verbatim>\<open>int\<close>, a
  \<^verbatim>\<open>float\<close>, a \<^verbatim>\<open>str\<close>, a \<^verbatim>\<open>list\<close> or a \<^verbatim>\<open>dict\<close> with \<^verbatim>\<open>str\<close> keys.
  A \<^verbatim>\<open>str\<close> is represented by its UTF-8 encoding, one \<open>char\<close> per byte: the
  program only concatenates strings, compares them, searches one in another and deletes
  line feeds, and UTF-8 commutes with all four. A \<^verbatim>\<open>dict\<close> is an association list
  read with \<open>map_of\<close>. A finite \<^verbatim>\<open>float\<close> is \<open>m * 2 ^ e\<close>; the program observes
  of a float only whether it is zero.
\<close>

datatype pyfloat = Finite int int | Infinite bool | NaN

datatype pyval =
    PNone
  | PBool bool
  | PInt int
  | PFloat pyfloat
  | PStr string
  | PList "pyval list"
  | PDict "(string \<times> pyval) list"

text \<open>Truth value testing, as \<^verbatim>\<open>or\<close> and \<^verbatim>\<open>and\<close> apply it to an operand.\<close>

fun truthy :: "pyval \<Rightarrow> bool" where
  "truthy PNone = False"
| "truthy (PBool b) = b"
| "truthy (PInt i) = (i \<noteq> 0)"
| "truthy (PFloat (Finite m e)) = (m \<noteq> 0)"
| "truthy (PFloat _) = True"
| "truthy (PStr s) = (s \<noteq> [])"
| "truthy (PList xs) = (xs \<noteq> [])"
| "truthy (PDict d) = (d \<noteq> [])"

text \<open>\<^verbatim>\<open>type(v).__name__\<close>.\<close>

fun type_name :: "pyval \<Rightarrow> string" where
  "type_name PNone = ''NoneType''"
| "type_name (PBool _) = ''bool''"
| "type_name (PInt _) = ''int''"
| "type_name (PFloat _) = ''float''"
| "type_name (PStr _) = ''str''"
| "type_name (PList _) = ''list''"
| "type_name (PDict _) = ''dict''"

text \<open>Lists and dicts have no hash; every other value has one.\<close>

fun hashable :: "pyval \<Rightarrow> bool" where
  "hashable (PList _) = False"
| "hashable (PDict _) = False"
| "hashable _ = True"

subsection \<open>Exceptions\<close>

text \<open>
  An exception is an instance of \<^verbatim>\<open>Exception\<close>, given by the classes among those the
  program names in an \<^verbatim>\<open>except\<close> clause (or raises itself) that it is an instance of.
  An exception may belong to several of them: \<^verbatim>\<open>json.JSONDecodeError\<close> derives from
  \<^verbatim>\<open>ValueError\<close>, \<^verbatim>\<open>telegram.error.Unauthorized\<close> from \<^verbatim>\<open>TelegramError\<close>, and
  some \<^verbatim>\<open>requests\<close> exceptions derive from two of them at once. What is outside
  \<^verbatim>\<open>Exception\<close> (\<^verbatim>\<open>KeyboardInterrupt\<close>, \<^verbatim>\<open>SystemExit\<close>) is a request to stop the
  interpreter that comes from outside the program, and is not modelled.
\<close>

datatype exc_class =
    TypeError
  | KeyError
  | IndexError
  | ValueError
  | JSONDecodeError
  | RequestException
  | TelegramError
  | Unauthorized
  | BadRequest

datatype exn = Exn "exc_class list"

fun isinstance :: "exn \<Rightarrow> exc_class \<Rightarrow> bool" where
  "isinstance (Exn classes) c = (c \<in> set classes)"

subsection \<open>Effects\<close>

datatype level = DEBUG | INFO | ERROR | CRITICAL

text \<open>
  One constructor for each message the program logs, with the values its text is built
  from (the number is the line of the call in \<^verbatim>\<open>homework.py\<close>).
\<close>

datatype logmsg =
    SendingMessage string       \<comment> \<open>46: sending the message, line feeds deleted\<close>
  | TelegramUnauthorized        \<comment> \<open>50: Telegram API not authorised\<close>
  | TelegramFailed exn          \<comment> \<open>52 and 54: error working with Telegram\<close>
  | RequestingAnswer            \<comment> \<open>64: getting the answer of the server\<close>
  | RequestFailed exn           \<comment> \<open>74: the request raised\<close>
  | BadValue exn                \<comment> \<open>77: error in a value\<close>
  | BadType exn                 \<comment> \<open>79: wrong data type\<close>
  | BadStatus int               \<comment> \<open>82: the server answered with this status\<close>
  | NotJson                     \<comment> \<open>88: the answer must be JSON\<close>
  | AnswerReceived              \<comment> \<open>89: answer received\<close>
  | CheckingResponse            \<comment> \<open>102: checking the answer\<close>
  | Object pyval                \<comment> \<open>105 and 108: the logged message is this object\<close>
  | NoHomeworks                 \<comment> \<open>111: there are no homeworks\<close>
  | NotAList string             \<comment> \<open>114: the type (of the response) is not a list\<close>
  | ResponseChecked             \<comment> \<open>115: answer checked\<close>
  | ExtractingStatus            \<comment> \<open>129: extracting the status of the homework\<close>
  | UndocumentedStatus          \<comment> \<open>134: undocumented homework status\<close>
  | CheckEnvVars                \<comment> \<open>159: check the environment variables\<close>
  | HomeworksReceived           \<comment> \<open>169: list of homeworks received\<close>
  | NoHomeworksFound            \<comment> \<open>175: no homeworks found\<close>
  | ProgramFailure exn          \<comment> \<open>179: failure of the program\<close>

text \<open>
  What a call does to the outside: it logs, issues the GET request (the address and the
  headers are constants; the event holds the \<^verbatim>\<open>from_date\<close> parameter), decodes the
  body of the HTTP response, asks the bot to send a text to a chat, or sleeps for a number
  of seconds.
\<close>

datatype event =
    Log level logmsg
  | HttpGet pyval
  | JsonDecode
  | TgSend "string option" string
  | Sleep nat

type_synonym 'a res = "(exn + 'a) \<times> event list"

definition ok :: "'a \<Rightarrow> 'a res" where
  "ok x = (Inr x, [])"

definition raise_exc :: "exn \<Rightarrow> 'a res" where
  "raise_exc e = (Inl e, [])"

definition emit :: "event \<Rightarrow> unit res" where
  "emit ev = (Inr (), [ev])"

definition logging :: "level \<Rightarrow> logmsg \<Rightarrow> unit res" where
  "logging lvl m = emit (Log lvl m)"

text \<open>Sequencing: the second statement runs only if the first one raised nothing.\<close>

definition and_then :: "'a res \<Rightarrow> ('a \<Rightarrow> 'b res) \<Rightarrow> 'b res" where
  "and_then m f =
     (case m of
        (Inl e, t) \<Rightarrow> (Inl e, t)
      | (Inr x, t) \<Rightarrow> (case f x of (r, t') \<Rightarrow> (r, t @ t')))"

text \<open>
  \<^verbatim>\<open>raise logging.error(m)\<close>: the call logs \<open>m\<close> and returns \<^verbatim>\<open>None\<close>, and
  raising \<^verbatim>\<open>None\<close> is a \<^verbatim>\<open>TypeError\<close> (exceptions must derive from
  \<^verbatim>\<open>BaseException\<close>).
\<close>

definition raise_logging_error :: "logmsg \<Rightarrow> 'a res" where
  "raise_logging_error m = and_then (logging ERROR m) (\<lambda>_. raise_exc (Exn [TypeError]))"

subsection \<open>Operators on values\<close>

text \<open>
  \<^verbatim>\<open>k in v\<close> for a string \<open>k\<close>: a key of a dict, an element of a list, a substring
  of a string; a \<^verbatim>\<open>TypeError\<close> on a value that is not iterable.
\<close>

fun py_in :: "string \<Rightarrow> pyval \<Rightarrow> bool res" where
  "py_in k (PDict d) = ok (map_of d k \<noteq> None)"
| "py_in k (PList xs) = ok (PStr k \<in> set xs)"
| "py_in k (PStr s) = ok (sublist k s)"
| "py_in k _ = raise_exc (Exn [TypeError])"

text \<open>
  \<^verbatim>\<open>v[k]\<close> for a string \<open>k\<close>: the value under the key of a dict, a \<^verbatim>\<open>KeyError\<close>
  when the dict has no such key, a \<^verbatim>\<open>TypeError\<close> on every other value (a list and a
  string take integer indices, the rest is not subscriptable).
\<close>

fun py_getitem :: "pyval \<Rightarrow> string \<Rightarrow> pyval res" where
  "py_getitem (PDict d) k =
     (case map_of d k of None \<Rightarrow> raise_exc (Exn [KeyError]) | Some v \<Rightarrow> ok v)"
| "py_getitem _ k = raise_exc (Exn [TypeError])"

text \<open>
  \<^verbatim>\<open>type(v) is list\<close>, \<^verbatim>\<open>len(v)\<close> and \<^verbatim>\<open>v[0]\<close>. A string counts code points,
  and its first element is its first code point: in UTF-8 a code point is a byte that is
  not a continuation byte, followed by its continuation bytes. A dict counts its keys,
  and has no key 0.
\<close>

fun is_list :: "pyval \<Rightarrow> bool" where
  "is_list (PList _) = True"
| "is_list _ = False"

definition is_continuation :: "char \<Rightarrow> bool" where
  "is_continuation c = ((128::nat) \<le> of_char c \<and> of_char c < (192::nat))"

fun py_len :: "pyval \<Rightarrow> nat res" where
  "py_len (PList xs) = ok (length xs)"
| "py_len (PStr s) = ok (length (filter (\<lambda>c. \<not> is_continuation c) s))"
| "py_len (PDict d) = ok (length (remdups (map fst d)))"
| "py_len _ = raise_exc (Exn [TypeError])"

fun py_first :: "pyval \<Rightarrow> pyval res" where
  "py_first (PList []) = raise_exc (Exn [IndexError])"
| "py_first (PList (x # _)) = ok x"
| "py_first (PStr []) = raise_exc (Exn [IndexError])"
| "py_first (PStr (c # cs)) = ok (PStr (c # takeWhile is_continuation cs))"
| "py_first (PDict d) = raise_exc (Exn [KeyError])"
| "py_first _ = raise_exc (Exn [TypeError])"

subsection \<open>Module constants\<close>

text \<open>
  \<^verbatim>\<open>PRACTICUM_TOKEN\<close>, \<^verbatim>\<open>TELEGRAM_TOKEN\<close> and \<^verbatim>\<open>TELEGRAM_CHAT_ID\<close> are read
  with \<^verbatim>\<open>os.getenv\<close> when the module is loaded: a string, or \<^verbatim>\<open>None\<close> for a
  variable that is not set.
\<close>

record config =
  PRACTICUM_TOKEN :: "string option"
  TELEGRAM_TOKEN :: "string option"
  TELEGRAM_CHAT_ID :: "string option"

definition RETRY_TIME :: nat where
  "RETRY_TIME = 600"

text \<open>
  The verdict texts of \<^verbatim>\<open>HOMEWORK_STATUSES\<close> (lines 28 to 32) and the opening of the
  message of \<^verbatim>\<open>parse_status\<close> (line 138) are Russian; they are given byte by byte,
  one line for each word. In English: "The work is checked: the reviewer liked
  everything. Hooray!", "The work is taken for checking by the reviewer.", "The work is
  checked: the reviewer has remarks." and "The status of the check of the work has
  changed", followed by a space and the double quote that opens the name.
\<close>

definition text_approved :: string where
  "text_approved =
       [CHR 0xD0, CHR 0xA0, CHR 0xD0, CHR 0xB0, CHR 0xD0, CHR 0xB1, CHR 0xD0, CHR 0xBE, CHR 0xD1, CHR 0x82, CHR 0xD0, CHR 0xB0, CHR 0x20]
     @ [CHR 0xD0, CHR 0xBF, CHR 0xD1, CHR 0x80, CHR 0xD0, CHR 0xBE, CHR 0xD0, CHR 0xB2, CHR 0xD0, CHR 0xB5, CHR 0xD1, CHR 0x80, CHR 0xD0, CHR 0xB5, CHR 0xD0, CHR 0xBD, CHR 0xD0, CHR 0xB0, CHR 0x3A, CHR 0x20]
     @ [CHR 0xD1, CHR 0x80, CHR 0xD0, CHR 0xB5, CHR 0xD0, CHR 0xB2, CHR 0xD1, CHR 0x8C, CHR 0xD1, CHR 0x8E, CHR 0xD0, CHR 0xB5, CHR 0xD1, CHR 0x80, CHR 0xD1, CHR 0x83, CHR 0x20]
     @ [CHR 0xD0, CHR 0xB2, CHR 0xD1, CHR 0x81, CHR 0xD1, CHR 0x91, CHR 0x20]
     @ [CHR 0xD0, CHR 0xBF, CHR 0xD0, CHR 0xBE, CHR 0xD0, CHR 0xBD, CHR 0xD1, CHR 0x80, CHR 0xD0, CHR 0xB0, CHR 0xD0, CHR 0xB2, CHR 0xD0, CHR 0xB8, CHR 0xD0, CHR 0xBB, CHR 0xD0, CHR 0xBE, CHR 0xD1, CHR 0x81, CHR 0xD1, CHR 0x8C, CHR 0x2E, CHR 0x20]
     @ [CHR 0xD0, CHR 0xA3, CHR 0xD1, CHR 0x80, CHR 0xD0, CHR 0xB0, CHR 0x21]"

definition text_reviewing :: string where
  "text_reviewing =
       [CHR 0xD0, CHR 0xA0, CHR 0xD0, CHR 0xB0, CHR 0xD0, CHR 0xB1, CHR 0xD0, CHR 0xBE, CHR 0xD1, CHR 0x82, CHR 0xD0, CHR 0xB0, CHR 0x20]
     @ [CHR 0xD0, CHR 0xB2, CHR 0xD0, CHR 0xB7, CHR 0xD1, CHR 0x8F, CHR 0xD1, CHR 0x82, CHR 0xD0, CHR 0xB0, CHR 0x20]
     @ [CHR 0xD0, CHR 0xBD, CHR 0xD0, CHR 0xB0, CHR 0x20]
     @ [CHR 0xD0, CHR 0xBF, CHR 0xD1, CHR 0x80, CHR 0xD0, CHR 0xBE, CHR 0xD0, CHR 0xB2, CHR 0xD0, CHR 0xB5, CHR 0xD1, CHR 0x80, CHR 0xD0, CHR 0xBA, CHR 0xD1, CHR 0x83, CHR 0x20]
     @ [CHR 0xD1, CHR 0x80, CHR 0xD0, CHR 0xB5, CHR 0xD0, CHR 0xB2, CHR 0xD1, CHR 0x8C, CHR 0xD1, CHR 0x8E, CHR 0xD0, CHR 0xB5, CHR 0xD1, CHR 0x80, CHR 0xD0, CHR 0xBE, CHR 0xD0, CHR 0xBC, CHR 0x2E]"

definition text_rejected :: string where
  "text_rejected =
       [CHR 0xD0, CHR 0xA0, CHR 0xD0, CHR 0xB0, CHR 0xD0, CHR 0xB1, CHR 0xD0, CHR 0xBE, CHR 0xD1, CHR 0x82, CHR 0xD0, CHR 0xB0, CHR 0x20]
     @ [CHR 0xD0, CHR 0xBF, CHR 0xD1, CHR 0x80, CHR 0xD0, CHR 0xBE, CHR 0xD0, CHR 0xB2, CHR 0xD0, CHR 0xB5, CHR 0xD1, CHR 0x80, CHR 0xD0, CHR 0xB5, CHR 0xD0, CHR 0xBD, CHR 0xD0, CHR 0xB0, CHR 0x3A, CHR 0x20]
     @ [CHR 0xD1, CHR 0x83, CHR 0x20]
     @ [CHR 0xD1, CHR 0x80, CHR 0xD0, CHR 0xB5, CHR 0xD0, CHR 0xB2, CHR 0xD1, CHR 0x8C, CHR 0xD1, CHR 0x8E, CHR 0xD0, CHR 0xB5, CHR 0xD1, CHR 0x80, CHR 0xD0, CHR 0xB0, CHR 0x20]
     @ [CHR 0xD0, CHR 0xB5, CHR 0xD1, CHR 0x81, CHR 0xD1, CHR 0x82, CHR 0xD1, CHR 0x8C, CHR 0x20]
     @ [CHR 0xD0, CHR 0xB7, CHR 0xD0, CHR 0xB0, CHR 0xD0, CHR 0xBC, CHR 0xD0, CHR 0xB5, CHR 0xD1, CHR 0x87, CHR 0xD0, CHR 0xB0, CHR 0xD0, CHR 0xBD, CHR 0xD0, CHR 0xB8, CHR 0xD1, CHR 0x8F, CHR 0x2E]"

definition text_status_changed :: string where
  "text_status_changed =
       [CHR 0xD0, CHR 0x98, CHR 0xD0, CHR 0xB7, CHR 0xD0, CHR 0xBC, CHR 0xD0, CHR 0xB5, CHR 0xD0, CHR 0xBD, CHR 0xD0, CHR 0xB8, CHR 0xD0, CHR 0xBB, CHR 0xD1, CHR 0x81, CHR 0xD1, CHR 0x8F, CHR 0x20]
     @ [CHR 0xD1, CHR 0x81, CHR 0xD1, CHR 0x82, CHR 0xD0, CHR 0xB0, CHR 0xD1, CHR 0x82, CHR 0xD1, CHR 0x83, CHR 0xD1, CHR 0x81, CHR 0x20]
     @ [CHR 0xD0, CHR 0xBF, CHR 0xD1, CHR 0x80, CHR 0xD0, CHR 0xBE, CHR 0xD0, CHR 0xB2, CHR 0xD0, CHR 0xB5, CHR 0xD1, CHR 0x80, CHR 0xD0, CHR 0xBA, CHR 0xD0, CHR 0xB8, CHR 0x20]
     @ [CHR 0xD1, CHR 0x80, CHR 0xD0, CHR 0xB0, CHR 0xD0, CHR 0xB1, CHR 0xD0, CHR 0xBE, CHR 0xD1, CHR 0x82, CHR 0xD1, CHR 0x8B, CHR 0x20]
     @ [CHR 0x22]"

definition HOMEWORK_STATUSES :: "(string \<times> string) list" where
  "HOMEWORK_STATUSES =
     [(''approved'', text_approved),
      (''reviewing'', text_reviewing),
      (''rejected'', text_rejected)]"

text \<open>
  \<^verbatim>\<open>key in HOMEWORK_STATUSES\<close> and \<^verbatim>\<open>HOMEWORK_STATUSES[key]\<close>: the key is hashed
  first (a \<^verbatim>\<open>TypeError\<close> for a list or a dict), and only a string can be equal to a key
  of this dict.
\<close>

fun statuses_contains :: "pyval \<Rightarrow> bool res" where
  "statuses_contains (PStr s) = ok (map_of HOMEWORK_STATUSES s \<noteq> None)"
| "statuses_contains v = (if hashable v then ok False else raise_exc (Exn [TypeError]))"

fun statuses_getitem :: "pyval \<Rightarrow> string res" where
  "statuses_getitem (PStr s) =
     (case map_of HOMEWORK_STATUSES s of
        None \<Rightarrow> raise_exc (Exn [KeyError])
      | Some verdict \<Rightarrow> ok verdict)"
| "statuses_getitem v =
     (if hashable v then raise_exc (Exn [KeyError]) else raise_exc (Exn [TypeError]))"

subsection \<open>The outside world\<close>

text \<open>
  What \<^verbatim>\<open>requests.get\<close> does (it raises, or returns a response with a status code),
  what \<^verbatim>\<open>response.json()\<close> does on that response (it raises, or returns the decoded
  value) and what \<^verbatim>\<open>bot.send_message\<close> does (it raises, or returns the message it
  sent, given here by its identifier).
\<close>

datatype json_outcome = JsonRaises exn | JsonValue pyval

datatype http_outcome = HttpRaises exn | HttpResponse int json_outcome

datatype tg_outcome = TgRaises exn | TgMessage nat

text \<open>What the outside world does during one iteration of the loop of \<^verbatim>\<open>main\<close>.\<close>

record cycle_env =
  http :: http_outcome
  tg :: tg_outcome

text \<open>
  What it does before the loop: whether \<^verbatim>\<open>Bot(token=TELEGRAM_TOKEN)\<close> raises, and
  the value of \<^verbatim>\<open>int(time.time())\<close>.
\<close>

record start_env =
  bot_raises :: "exn option"
  now :: int

subsection \<open>send_message (lines 37 to 54)\<close>

text \<open>
  Returns what \<^verbatim>\<open>bot.send_message\<close> returned, or \<^verbatim>\<open>None\<close> when one of the three
  handlers caught the exception. An exception of no handled class propagates.
\<close>

definition send_message :: "config \<Rightarrow> tg_outcome \<Rightarrow> string \<Rightarrow> nat option res" where
  "send_message cfg bot_reply message =
     (let message_for_log = filter (\<lambda>c. c \<noteq> CHR 0x0A) message in
      and_then (logging DEBUG (SendingMessage message_for_log)) (\<lambda>_.
      and_then (emit (TgSend (TELEGRAM_CHAT_ID cfg) message)) (\<lambda>_.
      case bot_reply of
        TgMessage sent \<Rightarrow> ok (Some sent)
      | TgRaises telegram_error \<Rightarrow>
          if isinstance telegram_error Unauthorized then
            and_then (logging ERROR TelegramUnauthorized) (\<lambda>_. ok None)
          else if isinstance telegram_error BadRequest then
            and_then (logging ERROR (TelegramFailed telegram_error)) (\<lambda>_. ok None)
          else if isinstance telegram_error TelegramError then
            and_then (logging ERROR (TelegramFailed telegram_error)) (\<lambda>_. ok None)
          else raise_exc telegram_error)))"

subsection \<open>get_api_answer (lines 57 to 90)\<close>

text \<open>
  Line 65 is \<^verbatim>\<open>timestamp = current_timestamp or int(time.time(0))\<close>: the right operand
  is evaluated only for a falsy cursor, and then \<^verbatim>\<open>time.time\<close>, which takes no
  argument, raises a \<^verbatim>\<open>TypeError\<close>. That line is outside the \<^verbatim>\<open>try\<close> of the
  function.
\<close>

definition get_api_answer :: "http_outcome \<Rightarrow> pyval \<Rightarrow> pyval res" where
  "get_api_answer server current_timestamp =
     and_then (logging INFO RequestingAnswer) (\<lambda>_.
     and_then (if truthy current_timestamp then ok current_timestamp
               else raise_exc (Exn [TypeError])) (\<lambda>timestamp.
     and_then (emit (HttpGet timestamp)) (\<lambda>_.
     and_then (case server of
                 HttpRaises answer_error \<Rightarrow>
                   if isinstance answer_error RequestException then
                     raise_logging_error (RequestFailed answer_error)
                   else if isinstance answer_error ValueError then
                     raise_logging_error (BadValue answer_error)
                   else if isinstance answer_error TypeError then
                     raise_logging_error (BadType answer_error)
                   else raise_exc answer_error
               | HttpResponse status_code body \<Rightarrow> ok (status_code, body)) (\<lambda>(status_code, body).
     and_then (if status_code \<noteq> 200 then raise_logging_error (BadStatus status_code)
               else ok ()) (\<lambda>_.
     and_then (emit JsonDecode) (\<lambda>_.
     and_then (case body of
                 JsonRaises decode_error \<Rightarrow>
                   if isinstance decode_error JSONDecodeError then raise_logging_error NotJson
                   else raise_exc decode_error
               | JsonValue decoded \<Rightarrow> ok decoded) (\<lambda>response.
     and_then (logging INFO AnswerReceived) (\<lambda>_.
     ok response))))))))"

subsection \<open>check_response (lines 93 to 116)\<close>

definition check_response :: "pyval \<Rightarrow> pyval res" where
  "check_response response =
     and_then (logging DEBUG CheckingResponse) (\<lambda>_.
     and_then (py_in ''error'' response) (\<lambda>has_error.
     and_then (if has_error then
                 and_then (py_getitem response ''error'') (\<lambda>inner.
                 and_then (py_in ''error'' inner) (\<lambda>nested.
                 if nested then
                   and_then (py_getitem response ''error'') (\<lambda>inner'.
                   and_then (py_getitem inner' ''error'') (\<lambda>text.
                   raise_logging_error (Object text)))
                 else ok ()))
               else ok ()) (\<lambda>_.
     and_then (py_in ''code'' response) (\<lambda>has_code.
     and_then (if has_code then
                 and_then (py_getitem response ''message'') (\<lambda>text.
                 logging INFO (Object text))
               else ok ()) (\<lambda>_.
     and_then (py_getitem response ''homeworks'') (\<lambda>homeworks.
     and_then (if homeworks = PNone then logging INFO NoHomeworks else ok ()) (\<lambda>_.
     and_then (py_getitem response ''homeworks'') (\<lambda>homeworks.
     and_then (if \<not> is_list homeworks then
                 raise_logging_error (NotAList (type_name response))
               else ok ()) (\<lambda>_.
     and_then (logging DEBUG ResponseChecked) (\<lambda>_.
     py_getitem response ''homeworks''))))))))))"

subsection \<open>parse_status (lines 119 to 138)\<close>

text \<open>
  The f-string of line 138 puts a string in as it is and anything else through the
  built-in \<^verbatim>\<open>str\<close>. The text \<^verbatim>\<open>str\<close> gives for a value that is not a string is
  the interpreter's and not the program's: it is the parameter \<open>py_str\<close>.
\<close>

fun format_value :: "(pyval \<Rightarrow> string) \<Rightarrow> pyval \<Rightarrow> string" where
  "format_value py_str (PStr s) = s"
| "format_value py_str v = py_str v"

definition parse_status :: "(pyval \<Rightarrow> string) \<Rightarrow> pyval \<Rightarrow> string res" where
  "parse_status py_str homework =
     and_then (logging DEBUG ExtractingStatus) (\<lambda>_.
     and_then (py_getitem homework ''homework_name'') (\<lambda>homework_name.
     and_then (py_getitem homework ''status'') (\<lambda>homework_status.
     and_then (statuses_contains homework_status) (\<lambda>known.
     and_then (if \<not> known then logging ERROR UndocumentedStatus else ok ()) (\<lambda>_.
     and_then (statuses_getitem homework_status) (\<lambda>verdict.
     ok (text_status_changed @ format_value py_str homework_name
           @ [CHR 0x22, CHR ''.'', CHR '' ''] @ verdict)))))))"

subsection \<open>check_tokens (lines 141 to 153)\<close>

definition check_tokens :: "config \<Rightarrow> bool" where
  "check_tokens cfg =
     (if PRACTICUM_TOKEN cfg = None \<and> TELEGRAM_CHAT_ID cfg = None \<and> TELEGRAM_TOKEN cfg = None
      then False
      else True)"

subsection \<open>main (lines 156 to 179)\<close>

text \<open>
  The body of the \<^verbatim>\<open>try\<close> of the loop: it returns the new cursor, or raises.
  The condition of line 170 is a chain of \<^verbatim>\<open>and\<close>: the length is taken only of a
  list.
\<close>

definition try_body :: "(pyval \<Rightarrow> string) \<Rightarrow> config \<Rightarrow> cycle_env \<Rightarrow> pyval \<Rightarrow> pyval res" where
  "try_body py_str cfg env current_timestamp =
     and_then (get_api_answer (http env) current_timestamp) (\<lambda>response.
     and_then (check_response response) (\<lambda>homeworks.
     and_then (logging INFO HomeworksReceived) (\<lambda>_.
     and_then (if is_list homeworks then
                 and_then (py_len homeworks) (\<lambda>n. ok (n > 0 \<and> truthy homeworks))
               else ok False) (\<lambda>found.
     and_then (if found then
                 and_then (py_first homeworks) (\<lambda>homework.
                 and_then (parse_status py_str homework) (\<lambda>message.
                 and_then (send_message cfg (tg env) message) (\<lambda>_. ok ())))
               else logging INFO NoHomeworksFound) (\<lambda>_.
     and_then (py_getitem response ''current_date'') (\<lambda>new_timestamp.
     and_then (emit (Sleep RETRY_TIME)) (\<lambda>_.
     ok new_timestamp)))))))"

text \<open>
  One iteration: the \<^verbatim>\<open>except Exception\<close> of line 178 logs what the body raised and
  leaves the cursor as it was. It returns the cursor of the next iteration.
\<close>

definition cycle :: "(pyval \<Rightarrow> string) \<Rightarrow> config \<Rightarrow> cycle_env \<Rightarrow> pyval \<Rightarrow> pyval \<times> event list" where
  "cycle py_str cfg env current_timestamp =
     (case try_body py_str cfg env current_timestamp of
        (Inr new_timestamp, t) \<Rightarrow> (new_timestamp, t)
      | (Inl ex_error, t) \<Rightarrow> (current_timestamp, t @ [Log CRITICAL (ProgramFailure ex_error)]))"

text \<open>
  \<^verbatim>\<open>while True\<close> has no exit: the loop is followed for as many iterations as the
  outside world is described for, and yields the cursor it has reached.
\<close>

fun poll_loop :: "(pyval \<Rightarrow> string) \<Rightarrow> config \<Rightarrow> cycle_env list \<Rightarrow> pyval \<Rightarrow> pyval \<times> event list" where
  "poll_loop py_str cfg [] current_timestamp = (current_timestamp, [])"
| "poll_loop py_str cfg (env # envs) current_timestamp =
     (case cycle py_str cfg env current_timestamp of
        (next_timestamp, t) \<Rightarrow>
          (case poll_loop py_str cfg envs next_timestamp of
             (last_timestamp, t') \<Rightarrow> (last_timestamp, t @ t')))"

text \<open>
  \<^verbatim>\<open>main\<close> returns 0 when \<^verbatim>\<open>check_tokens\<close> fails, dies of the exception that the
  construction of the bot raises (line 162 is outside the \<^verbatim>\<open>try\<close>), or is in its
  loop, with a cursor.
\<close>

datatype process = Returned int | Uncaught exn | Polling pyval

definition main :: "(pyval \<Rightarrow> string) \<Rightarrow> config \<Rightarrow> start_env \<Rightarrow> cycle_env list \<Rightarrow> process \<times> event list" where
  "main py_str cfg start envs =
     (if \<not> check_tokens cfg then (Returned 0, [Log CRITICAL CheckEnvVars])
      else case bot_raises start of
        Some e \<Rightarrow> (Uncaught e, [])
      | None \<Rightarrow>
          (case poll_loop py_str cfg envs (PInt (now start)) of
             (current_timestamp, t) \<Rightarrow> (Polling current_timestamp, t)))"

subsection \<open>Reading a list of effects\<close>

fun is_log :: "event \<Rightarrow> bool" where
  "is_log (Log _ _) = True"
| "is_log _ = False"


fun is_send :: "event \<Rightarrow> bool" where
  "is_send (TgSend _ _) = True"
| "is_send _ = False"

fun is_request :: "event \<Rightarrow> bool" where
  "is_request (HttpGet _) = True"
| "is_request _ = False"


subsection \<open>check_response on a store\<close>

text \<open>
  Python hands \<^verbatim>\<open>check_response\<close> a reference to the envelope, a dict that any
  statement with that reference could change (\<^verbatim>\<open>response['homeworks'] = []\<close>, say). To
  speak of that, the objects live in a store, from addresses to the objects with
  everything they contain (the values \<^verbatim>\<open>response.json()\<close> builds share nothing), the
  envelope is an address, and a statement is a step from a store to what it produced and
  the store it leaves. A step reads the object at an address (\<^verbatim>\<open>k in response\<close>,
  \<^verbatim>\<open>response[k]\<close>, \<^verbatim>\<open>type(response)\<close>) or leaves the store alone (a log line, a
  raise, an operator on a value already read). Lines 93 to 116 again, statement by
  statement:
\<close>

type_synonym store = "nat \<Rightarrow> pyval"

type_synonym 'a st = "store \<Rightarrow> 'a res \<times> store"

definition lift :: "'a res \<Rightarrow> 'a st" where
  "lift r = (\<lambda>s. (r, s))"

definition in_st :: "string \<Rightarrow> nat \<Rightarrow> bool st" where
  "in_st k a = (\<lambda>s. (py_in k (s a), s))"

definition getitem_st :: "nat \<Rightarrow> string \<Rightarrow> pyval st" where
  "getitem_st a k = (\<lambda>s. (py_getitem (s a) k, s))"

definition type_st :: "nat \<Rightarrow> string st" where
  "type_st a = (\<lambda>s. (ok (type_name (s a)), s))"

text \<open>
  Sequencing of steps: the second one starts from the store the first one leaves, and
  does not run if the first one raised.
\<close>

definition then_st :: "'a st \<Rightarrow> ('a \<Rightarrow> 'b st) \<Rightarrow> 'b st" where
  "then_st m f =
     (\<lambda>s. case m s of
        ((Inl e, t), s') \<Rightarrow> ((Inl e, t), s')
      | ((Inr x, t), s') \<Rightarrow> (case f x s' of ((r, t'), s'') \<Rightarrow> ((r, t @ t'), s'')))"

definition check_response_st :: "nat \<Rightarrow> pyval st" where
  "check_response_st response =
     then_st (lift (logging DEBUG CheckingResponse)) (\<lambda>_.
     then_st (in_st ''error'' response) (\<lambda>has_error.
     then_st (if has_error then
                then_st (getitem_st response ''error'') (\<lambda>inner.
                then_st (lift (py_in ''error'' inner)) (\<lambda>nested.
                if nested then
                  then_st (getitem_st response ''error'') (\<lambda>inner'.
                  then_st (lift (py_getitem inner' ''error'')) (\<lambda>text.
                  lift (raise_logging_error (Object text))))
                else lift (ok ())))
              else lift (ok ())) (\<lambda>_.
     then_st (in_st ''code'' response) (\<lambda>has_code.
     then_st (if has_code then
                then_st (getitem_st response ''message'') (\<lambda>text.
                lift (logging INFO (Object text)))
              else lift (ok ())) (\<lambda>_.
     then_st (getitem_st response ''homeworks'') (\<lambda>homeworks.
     then_st (if homeworks = PNone then lift (logging INFO NoHomeworks)
              else lift (ok ())) (\<lambda>_.
     then_st (getitem_st response ''homeworks'') (\<lambda>homeworks.
     then_st (if \<not> is_list homeworks then
                then_st (type_st response) (\<lambda>name.
                lift (raise_logging_error (NotAList name)))
              else lift (ok ())) (\<lambda>_.
     then_st (lift (logging DEBUG ResponseChecked)) (\<lambda>_.
     getitem_st response ''homeworks''))))))))))"

section \<open>Properties\<close>

subsection \<open>Sequencing\<close>

lemma and_then_ok [simp]: "and_then (ok x) f = f x"
  by (simp add: and_then_def ok_def split: prod.splits)

lemma and_then_raise [simp]: "and_then (raise_exc e) f = raise_exc e"
  by (simp add: and_then_def raise_exc_def)

lemma and_then_emit [simp]: "and_then (emit ev) f = (fst (f ()), ev # snd (f ()))"
  by (simp add: and_then_def emit_def split: prod.splits)

lemma and_then_logging [simp]:
  "and_then (logging lvl m) f = (fst (f ()), Log lvl m # snd (f ()))"
  by (simp add: logging_def)

lemma raise_logging_error_eq [simp]:
  "raise_logging_error m = (Inl (Exn [TypeError]), [Log ERROR m])"
  by (simp add: raise_logging_error_def raise_exc_def)

lemma and_then_Inl [simp]: "and_then (Inl e, t) f = (Inl e, t)"
  by (simp add: and_then_def)

lemma and_then_Inr [simp]: "and_then (Inr x, t) f = (fst (f x), t @ snd (f x))"
  by (simp add: and_then_def split: prod.splits)

lemma fst_and_then:
  "fst (and_then m f) = (case fst m of Inl e \<Rightarrow> Inl e | Inr x \<Rightarrow> fst (f x))"
  by (cases m) (auto simp: and_then_def split: sum.splits prod.splits)

lemma fst_and_then_cong:
  "fst m = fst m' \<Longrightarrow> (\<And>x. fst (f x) = fst (f' x)) \<Longrightarrow>
   fst (and_then m f) = fst (and_then m' f')"
  by (simp add: fst_and_then split: sum.splits)

lemma fst_if_cong:
  "(c \<Longrightarrow> fst a = fst a') \<Longrightarrow> (\<not> c \<Longrightarrow> fst b = fst b') \<Longrightarrow>
   fst (if c then a else b) = fst (if c then a' else b')"
  by simp

subsection \<open>The cursor of get_api_answer\<close>

text \<open>
  Claim C10. For every falsy cursor (0, \<^verbatim>\<open>None\<close>, an empty string and so on),
  \<^verbatim>\<open>get_api_answer\<close> raises a \<^verbatim>\<open>TypeError\<close> before it issues any HTTP request: the
  only effect of the call is its first log line. The exception comes from the right
  operand of \<^verbatim>\<open>or\<close> on line 65, which calls \<^verbatim>\<open>time.time\<close> with an argument.
\<close>

theorem get_api_answer_falsy_cursor:
  "\<not> truthy current_timestamp \<Longrightarrow>
     get_api_answer server current_timestamp
       = (Inl (Exn [TypeError]), [Log INFO RequestingAnswer])
     \<and> filter is_request (snd (get_api_answer server current_timestamp)) = []"
  by (simp add: get_api_answer_def raise_exc_def)

theorem get_api_answer_falsy_cursor_witness:
  "\<not> truthy (PInt 0)
   \<and> get_api_answer (HttpResponse 200 (JsonValue (PDict []))) (PInt 0)
       = (Inl (Exn [TypeError]), [Log INFO RequestingAnswer])
   \<and> filter is_request (snd (get_api_answer (HttpResponse 200 (JsonValue (PDict []))) (PInt 0))) = []"
  using get_api_answer_falsy_cursor [of "PInt 0" "HttpResponse 200 (JsonValue (PDict []))"]
  by simp

subsection \<open>The start of the process\<close>

text \<open>
  Claim C2 says that \<^verbatim>\<open>check_tokens\<close> returns \<^verbatim>\<open>False\<close>, and the process stops at its
  start, as soon as one of the three credentials is absent; so does the docstring of
  \<^verbatim>\<open>check_tokens\<close>. The condition of line 149 joins the three tests with \<^verbatim>\<open>and\<close>:
  with the API token absent and the other two present the check returns \<^verbatim>\<open>True\<close> and
  \<^verbatim>\<open>main\<close> enters its loop.
\<close>

theorem check_tokens_one_absent:
  "check_tokens \<lparr>PRACTICUM_TOKEN = None, TELEGRAM_TOKEN = Some ''t'',
                  TELEGRAM_CHAT_ID = Some ''1''\<rparr> = True
   \<and> fst (main py_str \<lparr>PRACTICUM_TOKEN = None, TELEGRAM_TOKEN = Some ''t'',
                         TELEGRAM_CHAT_ID = Some ''1''\<rparr>
                \<lparr>bot_raises = None, now = 1700000000\<rparr> [])
       = Polling (PInt 1700000000)"
  by (simp add: check_tokens_def main_def)

subsection \<open>The loop and the exceptions of an iteration\<close>










subsection \<open>The message of parse_status\<close>

text \<open>
  Claim C6. For every homework record whose status is a key of \<^verbatim>\<open>HOMEWORK_STATUSES\<close>,
  \<^verbatim>\<open>parse_status\<close> returns exactly the opening text, the name of the record between
  double quotes, a full stop, a space and the verdict text of that status; it logs one
  debug line and nothing else. For the name \<^verbatim>\<open>hw1\<close> and the status \<^verbatim>\<open>approved\<close> that
  is the message of the scenario of the specification, byte for byte.
\<close>

theorem parse_status_known:
  "map_of d ''homework_name'' = Some (PStr name) \<Longrightarrow>
   map_of d ''status'' = Some (PStr status) \<Longrightarrow>
   map_of HOMEWORK_STATUSES status = Some verdict \<Longrightarrow>
   parse_status py_str (PDict d)
     = (Inr (text_status_changed @ name @ [CHR 0x22, CHR ''.'', CHR '' ''] @ verdict),
        [Log DEBUG ExtractingStatus])"
  by (simp add: parse_status_def ok_def)

theorem parse_status_known_witness:
  "map_of [(''homework_name'', PStr ''hw1''), (''status'', PStr ''approved'')] ''homework_name''
     = Some (PStr ''hw1'')
   \<and> map_of [(''homework_name'', PStr ''hw1''), (''status'', PStr ''approved'')] ''status''
     = Some (PStr ''approved'')
   \<and> map_of HOMEWORK_STATUSES ''approved'' = Some text_approved
   \<and> fst (parse_status (\<lambda>v. [])
          (PDict [(''homework_name'', PStr ''hw1''), (''status'', PStr ''approved'')]))
     = Inr ([CHR 0xD0, CHR 0x98, CHR 0xD0, CHR 0xB7, CHR 0xD0, CHR 0xBC, CHR 0xD0, CHR 0xB5, CHR 0xD0, CHR 0xBD, CHR 0xD0, CHR 0xB8, CHR 0xD0, CHR 0xBB, CHR 0xD1, CHR 0x81, CHR 0xD1, CHR 0x8F, CHR 0x20]
           @ [CHR 0xD1, CHR 0x81, CHR 0xD1, CHR 0x82, CHR 0xD0, CHR 0xB0, CHR 0xD1, CHR 0x82, CHR 0xD1, CHR 0x83, CHR 0xD1, CHR 0x81, CHR 0x20]
           @ [CHR 0xD0, CHR 0xBF, CHR 0xD1, CHR 0x80, CHR 0xD0, CHR 0xBE, CHR 0xD0, CHR 0xB2, CHR 0xD0, CHR 0xB5, CHR 0xD1, CHR 0x80, CHR 0xD0, CHR 0xBA, CHR 0xD0, CHR 0xB8, CHR 0x20]
           @ [CHR 0xD1, CHR 0x80, CHR 0xD0, CHR 0xB0, CHR 0xD0, CHR 0xB1, CHR 0xD0, CHR 0xBE, CHR 0xD1, CHR 0x82, CHR 0xD1, CHR 0x8B, CHR 0x20]
           @ [CHR 0x22, CHR 0x68, CHR 0x77, CHR 0x31, CHR 0x22, CHR 0x2E, CHR 0x20]
           @ [CHR 0xD0, CHR 0xA0, CHR 0xD0, CHR 0xB0, CHR 0xD0, CHR 0xB1, CHR 0xD0, CHR 0xBE, CHR 0xD1, CHR 0x82, CHR 0xD0, CHR 0xB0, CHR 0x20]
           @ [CHR 0xD0, CHR 0xBF, CHR 0xD1, CHR 0x80, CHR 0xD0, CHR 0xBE, CHR 0xD0, CHR 0xB2, CHR 0xD0, CHR 0xB5, CHR 0xD1, CHR 0x80, CHR 0xD0, CHR 0xB5, CHR 0xD0, CHR 0xBD, CHR 0xD0, CHR 0xB0, CHR 0x3A, CHR 0x20]
           @ [CHR 0xD1, CHR 0x80, CHR 0xD0, CHR 0xB5, CHR 0xD0, CHR 0xB2, CHR 0xD1, CHR 0x8C, CHR 0xD1, CHR 0x8E, CHR 0xD0, CHR 0xB5, CHR 0xD1, CHR 0x80, CHR 0xD1, CHR 0x83, CHR 0x20]
           @ [CHR 0xD0, CHR 0xB2, CHR 0xD1, CHR 0x81, CHR 0xD1, CHR 0x91, CHR 0x20]
           @ [CHR 0xD0, CHR 0xBF, CHR 0xD0, CHR 0xBE, CHR 0xD0, CHR 0xBD, CHR 0xD1, CHR 0x80, CHR 0xD0, CHR 0xB0, CHR 0xD0, CHR 0xB2, CHR 0xD0, CHR 0xB8, CHR 0xD0, CHR 0xBB, CHR 0xD0, CHR 0xBE, CHR 0xD1, CHR 0x81, CHR 0xD1, CHR 0x8C, CHR 0x2E, CHR 0x20]
           @ [CHR 0xD0, CHR 0xA3, CHR 0xD1, CHR 0x80, CHR 0xD0, CHR 0xB0, CHR 0x21])"
proof -
  have name: "map_of [(''homework_name'', PStr ''hw1''), (''status'', PStr ''approved'')]
      ''homework_name'' = Some (PStr ''hw1'')"
    by simp
  have status: "map_of [(''homework_name'', PStr ''hw1''), (''status'', PStr ''approved'')]
      ''status'' = Some (PStr ''approved'')"
    by simp
  have verdict: "map_of HOMEWORK_STATUSES ''approved'' = Some text_approved"
    by (simp add: HOMEWORK_STATUSES_def)
  show ?thesis
    using parse_status_known [OF name status verdict, of "\<lambda>v. []"] name status verdict
    by (simp add: text_status_changed_def text_approved_def)
qed

lemma statuses_unknown:
  "hashable status \<Longrightarrow> status \<notin> set (map (PStr \<circ> fst) HOMEWORK_STATUSES) \<Longrightarrow>
   statuses_contains status = ok False \<and> statuses_getitem status = raise_exc (Exn [KeyError])"
proof (cases status)
  case (PStr s)
  assume "status \<notin> set (map (PStr \<circ> fst) HOMEWORK_STATUSES)"
  with PStr have "s \<notin> fst ` set HOMEWORK_STATUSES" by auto
  then have "map_of HOMEWORK_STATUSES s = None" by (simp add: map_of_eq_None_iff)
  with PStr show ?thesis by simp
qed simp_all

text \<open>
  Claim C3 says that for a status that is not a key of the catalog the formatter does not
  raise and returns a display string with a fallback verdict. It raises: for the record
  \<^verbatim>\<open>{"homework_name": "hw1", "status": "unknown"}\<close> line 134 logs the condition and
  line 136 looks the status up in the catalog, which is a \<^verbatim>\<open>KeyError\<close>.
\<close>

theorem parse_status_unknown_counterexample:
  "fst (parse_status (\<lambda>v. [])
          (PDict [(''homework_name'', PStr ''hw1''), (''status'', PStr ''unknown'')]))
     = Inl (Exn [KeyError])"
  by (simp add: parse_status_def HOMEWORK_STATUSES_def ok_def raise_exc_def)

text \<open>
  Claim C3, amended. For every homework record with a name whose status has a hash and is
  not a key of the catalog, the formatter logs the condition at error level and then
  raises a \<^verbatim>\<open>KeyError\<close>: it returns no display string, and there is no fallback
  verdict.
\<close>

theorem parse_status_unknown:
  "map_of d ''homework_name'' = Some name \<Longrightarrow>
   map_of d ''status'' = Some status \<Longrightarrow>
   hashable status \<Longrightarrow>
   status \<notin> set (map (PStr \<circ> fst) HOMEWORK_STATUSES) \<Longrightarrow>
   parse_status py_str (PDict d)
     = (Inl (Exn [KeyError]), [Log DEBUG ExtractingStatus, Log ERROR UndocumentedStatus])"
  using statuses_unknown [of status]
  by (simp add: parse_status_def ok_def raise_exc_def)

theorem parse_status_unknown_witness:
  "map_of [(''homework_name'', PStr ''hw1''), (''status'', PStr ''unknown'')] ''homework_name''
     = Some (PStr ''hw1'')
   \<and> map_of [(''homework_name'', PStr ''hw1''), (''status'', PStr ''unknown'')] ''status''
     = Some (PStr ''unknown'')
   \<and> hashable (PStr ''unknown'')
   \<and> PStr ''unknown'' \<notin> set (map (PStr \<circ> fst) HOMEWORK_STATUSES)
   \<and> parse_status (\<lambda>v. [])
        (PDict [(''homework_name'', PStr ''hw1''), (''status'', PStr ''unknown'')])
     = (Inl (Exn [KeyError]), [Log DEBUG ExtractingStatus, Log ERROR UndocumentedStatus])"
  using parse_status_unknown
    [of "[(''homework_name'', PStr ''hw1''), (''status'', PStr ''unknown'')]"
        "PStr ''hw1''" "PStr ''unknown''" "\<lambda>v. []"]
  by (simp add: HOMEWORK_STATUSES_def)

subsection \<open>Failures of the notification\<close>

lemma send_message_handled:
  "isinstance e Unauthorized \<or> isinstance e BadRequest \<or> isinstance e TelegramError \<Longrightarrow>
   send_message cfg (TgRaises e) message
     = (Inr None,
        [Log DEBUG (SendingMessage (filter (\<lambda>c. c \<noteq> CHR 0x0A) message)),
         TgSend (TELEGRAM_CHAT_ID cfg) message,
         Log ERROR (if isinstance e Unauthorized then TelegramUnauthorized
                    else TelegramFailed e)])"
  by (auto simp: send_message_def ok_def)

lemma send_message_delivered:
  "send_message cfg (TgMessage n) message
     = (Inr (Some n),
        [Log DEBUG (SendingMessage (filter (\<lambda>c. c \<noteq> CHR 0x0A) message)),
         TgSend (TELEGRAM_CHAT_ID cfg) message])"
  by (simp add: send_message_def ok_def)

text \<open>
  Claim C8. For every message and every failure of \<^verbatim>\<open>bot.send_message\<close> of the three
  classes (\<^verbatim>\<open>Unauthorized\<close>, \<^verbatim>\<open>BadRequest\<close>, \<^verbatim>\<open>TelegramError\<close>),
  \<^verbatim>\<open>send_message\<close> raises nothing: it logs one line at error level after the attempt
  and returns \<^verbatim>\<open>None\<close>. The failure does not abort the iteration either: the body of
  the loop ends as it ends when the message is delivered, with the same new cursor or the
  same exception.
\<close>

theorem send_message_swallows:
  "isinstance e Unauthorized \<or> isinstance e BadRequest \<or> isinstance e TelegramError \<Longrightarrow>
   fst (send_message cfg (TgRaises e) message) = Inr None
   \<and> snd (send_message cfg (TgRaises e) message)
       = [Log DEBUG (SendingMessage (filter (\<lambda>c. c \<noteq> CHR 0x0A) message)),
          TgSend (TELEGRAM_CHAT_ID cfg) message,
          Log ERROR (if isinstance e Unauthorized then TelegramUnauthorized
                     else TelegramFailed e)]
   \<and> fst (try_body py_str cfg (env\<lparr>tg := TgRaises e\<rparr>) ts)
       = fst (try_body py_str cfg (env\<lparr>tg := TgMessage n\<rparr>) ts)"
proof (intro conjI)
  assume h: "isinstance e Unauthorized \<or> isinstance e BadRequest \<or> isinstance e TelegramError"
  show "fst (send_message cfg (TgRaises e) message) = Inr None"
    using send_message_handled [OF h] by simp
  show "snd (send_message cfg (TgRaises e) message)
       = [Log DEBUG (SendingMessage (filter (\<lambda>c. c \<noteq> CHR 0x0A) message)),
          TgSend (TELEGRAM_CHAT_ID cfg) message,
          Log ERROR (if isinstance e Unauthorized then TelegramUnauthorized
                     else TelegramFailed e)]"
    using send_message_handled [OF h] by simp
  have sent: "fst (send_message cfg (TgRaises e) m) = Inr None" for m
    using send_message_handled [OF h] by simp
  have delivered: "fst (send_message cfg (TgMessage n) m) = Inr (Some n)" for m
    by (simp add: send_message_delivered)
  have step:
    "fst (and_then (send_message cfg (tg (env\<lparr>tg := TgRaises e\<rparr>)) m) (\<lambda>_. ok ()))
      = fst (and_then (send_message cfg (tg (env\<lparr>tg := TgMessage n\<rparr>)) m) (\<lambda>_. ok ()))"
    for m
    by (simp add: fst_and_then sent delivered)
  show "fst (try_body py_str cfg (env\<lparr>tg := TgRaises e\<rparr>) ts)
       = fst (try_body py_str cfg (env\<lparr>tg := TgMessage n\<rparr>) ts)"
    unfolding try_body_def
    by (intro step fst_and_then_cong fst_if_cong refl) simp_all
qed

text \<open>
  An unauthorised bot, in the scenario of the specification: the envelope carries one
  approved homework and the date 1700000100, and the cursor still advances to that date.
\<close>

theorem send_message_swallows_witness:
  "isinstance (Exn [Unauthorized, TelegramError]) Unauthorized
   \<and> fst (send_message
        \<lparr>PRACTICUM_TOKEN = Some ''p'', TELEGRAM_TOKEN = Some ''t'', TELEGRAM_CHAT_ID = Some ''42''\<rparr>
        (TgRaises (Exn [Unauthorized, TelegramError])) ''hello'') = Inr None
   \<and> snd (send_message
        \<lparr>PRACTICUM_TOKEN = Some ''p'', TELEGRAM_TOKEN = Some ''t'', TELEGRAM_CHAT_ID = Some ''42''\<rparr>
        (TgRaises (Exn [Unauthorized, TelegramError])) ''hello'')
       = [Log DEBUG (SendingMessage ''hello''), TgSend (Some ''42'') ''hello'',
          Log ERROR TelegramUnauthorized]
   \<and> fst (try_body (\<lambda>v. [])
        \<lparr>PRACTICUM_TOKEN = Some ''p'', TELEGRAM_TOKEN = Some ''t'', TELEGRAM_CHAT_ID = Some ''42''\<rparr>
        \<lparr>http = HttpResponse 200 (JsonValue (PDict
            [(''homeworks'', PList [PDict [(''homework_name'', PStr ''hw1''),
                                           (''status'', PStr ''approved'')]]),
             (''current_date'', PInt 1700000100)])),
          tg = TgRaises (Exn [Unauthorized, TelegramError])\<rparr>
        (PInt 1700000000))
       = Inr (PInt 1700000100)"
proof -
  have delivered: "fst (try_body (\<lambda>v. [])
        \<lparr>PRACTICUM_TOKEN = Some ''p'', TELEGRAM_TOKEN = Some ''t'', TELEGRAM_CHAT_ID = Some ''42''\<rparr>
        \<lparr>http = HttpResponse 200 (JsonValue (PDict
            [(''homeworks'', PList [PDict [(''homework_name'', PStr ''hw1''),
                                           (''status'', PStr ''approved'')]]),
             (''current_date'', PInt 1700000100)])),
          tg = TgMessage 7\<rparr>
        (PInt 1700000000))
       = Inr (PInt 1700000100)"
    by (simp add: try_body_def get_api_answer_def check_response_def parse_status_def
        send_message_def HOMEWORK_STATUSES_def ok_def raise_exc_def)
  show ?thesis
    using send_message_swallows
      [of "Exn [Unauthorized, TelegramError]"
          "\<lparr>PRACTICUM_TOKEN = Some ''p'', TELEGRAM_TOKEN = Some ''t'', TELEGRAM_CHAT_ID = Some ''42''\<rparr>"
          "''hello''" "\<lambda>v. []"
          "\<lparr>http = HttpResponse 200 (JsonValue (PDict
            [(''homeworks'', PList [PDict [(''homework_name'', PStr ''hw1''),
                                           (''status'', PStr ''approved'')]]),
             (''current_date'', PInt 1700000100)])),
            tg = TgMessage 7\<rparr>"
          "PInt 1700000000" 7]
      delivered
    by simp
qed

subsection \<open>An answer with a status code other than 200\<close>

text \<open>
  Claim C4 says that for a status code other than 200 the fetch fails with an error that
  carries the status code, and that the body is not decoded. Line 82 is
  \<^verbatim>\<open>raise logging.error(...)\<close>: the status code goes into the log line, and what is
  raised is the \<^verbatim>\<open>TypeError\<close> of raising \<^verbatim>\<open>None\<close>, the same for 404 and for 500.
  The body is not decoded.
\<close>

theorem get_api_answer_not_found:
  "get_api_answer (HttpResponse 404 (JsonValue (PDict []))) (PInt 1700000000)
     = (Inl (Exn [TypeError]),
        [Log INFO RequestingAnswer, HttpGet (PInt 1700000000), Log ERROR (BadStatus 404)])
   \<and> get_api_answer (HttpResponse 500 (JsonValue (PDict []))) (PInt 1700000000)
     = (Inl (Exn [TypeError]),
        [Log INFO RequestingAnswer, HttpGet (PInt 1700000000), Log ERROR (BadStatus 500)])"
  by (simp add: get_api_answer_def)

subsection \<open>The validator\<close>

text \<open>
  Claim C7 says that for an envelope with a nested error object the validator fails with
  an error that carries the embedded message, that the cursor stays and that no
  notification is sent. Line 105 is \<^verbatim>\<open>raise logging.error(...)\<close> again: for
  \<^verbatim>\<open>{"error": {"error": "bad token"}}\<close> the embedded message goes into the log line
  and what is raised is the \<^verbatim>\<open>TypeError\<close> of raising \<^verbatim>\<open>None\<close>, the same as for any
  other message. The iteration leaves the cursor where it was and asks the bot nothing.
\<close>

theorem check_response_bad_token:
  "check_response (PDict [(''error'', PDict [(''error'', PStr ''bad token'')])])
     = (Inl (Exn [TypeError]),
        [Log DEBUG CheckingResponse, Log ERROR (Object (PStr ''bad token''))])
   \<and> fst (check_response (PDict [(''error'', PDict [(''error'', PStr ''no access'')])]))
     = Inl (Exn [TypeError])
   \<and> cycle (\<lambda>v. [])
        \<lparr>PRACTICUM_TOKEN = Some ''p'', TELEGRAM_TOKEN = Some ''t'', TELEGRAM_CHAT_ID = Some ''42''\<rparr>
        \<lparr>http = HttpResponse 200
                  (JsonValue (PDict [(''error'', PDict [(''error'', PStr ''bad token'')])])),
          tg = TgMessage 1\<rparr>
        (PInt 1700000000)
     = (PInt 1700000000,
        [Log INFO RequestingAnswer, HttpGet (PInt 1700000000), JsonDecode,
         Log INFO AnswerReceived, Log DEBUG CheckingResponse,
         Log ERROR (Object (PStr ''bad token'')),
         Log CRITICAL (ProgramFailure (Exn [TypeError]))])"
  by (simp add: cycle_def try_body_def get_api_answer_def check_response_def ok_def)

text \<open>
  Claim C5 says that the validator returns an empty sequence, and raises nothing, also
  for an envelope whose \<^verbatim>\<open>homeworks\<close> field is absent or null. For an absent field
  line 110 is a \<^verbatim>\<open>KeyError\<close>; for a null field line 111 logs that there are no
  homeworks and line 114 raises, since \<^verbatim>\<open>None\<close> is not a list.
\<close>

theorem check_response_no_homeworks_counterexample:
  "fst (check_response (PDict [(''current_date'', PInt 1700000100)])) = Inl (Exn [KeyError])
   \<and> fst (check_response (PDict [(''homeworks'', PNone), (''current_date'', PInt 1700000100)]))
     = Inl (Exn [TypeError])"
  by (simp add: check_response_def ok_def raise_exc_def)

lemma validator_accepts_empty:
  assumes hw: "map_of d ''homeworks'' = Some (PList [])"
    and err: "map_of d ''error'' = None"
    and code: "map_of d ''code'' = None \<or> map_of d ''message'' \<noteq> None"
  shows "fst (check_response (PDict d)) = Inr (PList [])"
    and "list_all is_log (snd (check_response (PDict d)))"
  using assms by (auto simp: check_response_def ok_def)

text \<open>
  Claim C5, amended. For every envelope whose \<^verbatim>\<open>homeworks\<close> field is an empty sequence,
  and that is otherwise valid (it has no \<^verbatim>\<open>error\<close> field, and it has a \<^verbatim>\<open>message\<close>
  field if it has a \<^verbatim>\<open>code\<close> field), the validator returns an empty sequence and raises
  nothing; and the iteration that fetches such an envelope moves the cursor to the
  \<^verbatim>\<open>current_date\<close> of the envelope and sends no notification.
\<close>

theorem check_response_empty_homeworks:
  "map_of d ''homeworks'' = Some (PList []) \<Longrightarrow>
   map_of d ''error'' = None \<Longrightarrow>
   map_of d ''code'' = None \<or> map_of d ''message'' \<noteq> None \<Longrightarrow>
   fst (check_response (PDict d)) = Inr (PList [])
   \<and> (truthy ts \<and> http env = HttpResponse 200 (JsonValue (PDict d))
        \<and> map_of d ''current_date'' = Some date \<longrightarrow>
        fst (cycle py_str cfg env ts) = date
        \<and> filter is_send (snd (cycle py_str cfg env ts)) = [])"
proof (intro conjI impI)
  assume hw: "map_of d ''homeworks'' = Some (PList [])"
    and err: "map_of d ''error'' = None"
    and code: "map_of d ''code'' = None \<or> map_of d ''message'' \<noteq> None"
  show r: "fst (check_response (PDict d)) = Inr (PList [])"
    using validator_accepts_empty(1) [OF hw err code] .
  assume a: "truthy ts \<and> http env = HttpResponse 200 (JsonValue (PDict d))
        \<and> map_of d ''current_date'' = Some date"
  obtain t where c: "check_response (PDict d) = (Inr (PList []), t)" and t: "list_all is_log t"
    using r validator_accepts_empty(2) [OF hw err code]
    by (cases "check_response (PDict d)") simp
  have nosend: "filter is_send t = []"
    using t by (induction t) (auto elim: is_log.elims)
  have body: "try_body py_str cfg env ts =
     (Inr date,
      [Log INFO RequestingAnswer, HttpGet ts, JsonDecode, Log INFO AnswerReceived] @ t @
      [Log INFO HomeworksReceived, Log INFO NoHomeworksFound, Sleep RETRY_TIME])"
    using a c by (simp add: try_body_def get_api_answer_def ok_def)
  show "fst (cycle py_str cfg env ts) = date"
    using body by (simp add: cycle_def)
  show "filter is_send (snd (cycle py_str cfg env ts)) = []"
    using body nosend by (simp add: cycle_def)
qed

theorem check_response_empty_homeworks_witness:
  "map_of [(''homeworks'', PList []), (''current_date'', PInt 1700000100)] ''homeworks''
     = Some (PList [])
   \<and> map_of [(''homeworks'', PList []), (''current_date'', PInt 1700000100)] ''error'' = None
   \<and> map_of [(''homeworks'', PList []), (''current_date'', PInt 1700000100)] ''code'' = None
   \<and> truthy (PInt 1700000000)
   \<and> fst (check_response (PDict [(''homeworks'', PList []), (''current_date'', PInt 1700000100)]))
     = Inr (PList [])
   \<and> fst (cycle (\<lambda>v. [])
        \<lparr>PRACTICUM_TOKEN = Some ''p'', TELEGRAM_TOKEN = Some ''t'', TELEGRAM_CHAT_ID = Some ''42''\<rparr>
        \<lparr>http = HttpResponse 200
            (JsonValue (PDict [(''homeworks'', PList []), (''current_date'', PInt 1700000100)])),
          tg = TgMessage 1\<rparr>
        (PInt 1700000000))
     = PInt 1700000100
   \<and> filter is_send (snd (cycle (\<lambda>v. [])
        \<lparr>PRACTICUM_TOKEN = Some ''p'', TELEGRAM_TOKEN = Some ''t'', TELEGRAM_CHAT_ID = Some ''42''\<rparr>
        \<lparr>http = HttpResponse 200
            (JsonValue (PDict [(''homeworks'', PList []), (''current_date'', PInt 1700000100)])),
          tg = TgMessage 1\<rparr>
        (PInt 1700000000))) = []"
  using check_response_empty_homeworks
    [of "[(''homeworks'', PList []), (''current_date'', PInt 1700000100)]"
        "PInt 1700000000"
        "\<lparr>http = HttpResponse 200
            (JsonValue (PDict [(''homeworks'', PList []), (''current_date'', PInt 1700000100)])),
          tg = TgMessage 1\<rparr>"
        "PInt 1700000100" "\<lambda>v. []"
        "\<lparr>PRACTICUM_TOKEN = Some ''p'', TELEGRAM_TOKEN = Some ''t'', TELEGRAM_CHAT_ID = Some ''42''\<rparr>"]
  by simp

lemma logs_and_then:
  "list_all is_log (snd m) \<Longrightarrow> (\<And>x. list_all is_log (snd (f x))) \<Longrightarrow>
   list_all is_log (snd (and_then m f))"
proof (cases m)
  case (Pair r t)
  assume "list_all is_log (snd m)" and "\<And>x. list_all is_log (snd (f x))"
  with Pair show ?thesis by (cases r) simp_all
qed

lemma logs_if:
  "(c \<Longrightarrow> list_all is_log (snd a)) \<Longrightarrow> (\<not> c \<Longrightarrow> list_all is_log (snd b)) \<Longrightarrow>
   list_all is_log (snd (if c then a else b))"
  by simp

lemma logs_ok: "list_all is_log (snd (ok x))"
  by (simp add: ok_def)

lemma logs_raise_exc: "list_all is_log (snd (raise_exc e))"
  by (simp add: raise_exc_def)

lemma logs_logging: "list_all is_log (snd (logging lvl m))"
  by (simp add: logging_def emit_def)

lemma logs_raise_logging_error: "list_all is_log (snd (raise_logging_error m))"
  by simp

lemma logs_py_in: "list_all is_log (snd (py_in k v))"
  by (cases v) (simp_all add: ok_def raise_exc_def)

lemma logs_py_getitem: "list_all is_log (snd (py_getitem v k))"
  by (cases v) (simp_all add: ok_def raise_exc_def split: option.splits)

lemma check_response_logs: "list_all is_log (snd (check_response response))"
  unfolding check_response_def
  by (intro logs_and_then logs_if logs_ok logs_raise_exc logs_logging
      logs_raise_logging_error logs_py_in logs_py_getitem)

lemma and_then_Inr_iff:
  "fst (and_then m f) = Inr y \<longleftrightarrow> (\<exists>x. fst m = Inr x \<and> fst (f x) = Inr y)"
  by (cases "fst m") (simp_all add: fst_and_then)

lemma py_getitem_Inr:
  "fst (py_getitem v k) = Inr x \<Longrightarrow> py_getitem v k = ok x"
  by (cases v) (simp_all add: ok_def raise_exc_def split: option.splits)

lemma check_response_returns:
  assumes "fst (check_response response) = Inr homeworks"
  shows "py_getitem response ''homeworks'' = ok homeworks \<and> is_list homeworks"
proof -
  have last: "fst (py_getitem response ''homeworks'') = Inr homeworks"
    using assms unfolding check_response_def
    by (simp only: and_then_Inr_iff) blast
  have "\<exists>hw. fst (py_getitem response ''homeworks'') = Inr hw
      \<and> (\<exists>u. fst (if \<not> is_list hw
                then raise_logging_error (NotAList (type_name response)) else ok ()) = Inr u)"
    using assms unfolding check_response_def
    by (simp only: and_then_Inr_iff) blast
  then have "is_list homeworks"
    using last by (auto split: if_splits)
  then show ?thesis
    using py_getitem_Inr [OF last] by simp
qed

lemma then_st_run:
  assumes "m s = (r, s)" and "\<And>x. f x s = (g x, s)"
  shows "then_st m f s = (and_then r g, s)"
proof (cases r)
  case (Pair v t)
  show ?thesis
  proof (cases v)
    case (Inl e)
    with Pair assms(1) show ?thesis by (simp add: then_st_def)
  next
    case (Inr x)
    with Pair assms(1) assms(2) [of x] show ?thesis
      by (cases "g x") (simp add: then_st_def)
  qed
qed

lemma if_run:
  "(c \<Longrightarrow> a s = (a', s)) \<Longrightarrow> (\<not> c \<Longrightarrow> b s = (b', s)) \<Longrightarrow>
   (if c then a else b) s = (if c then a' else b', s)"
  by simp

lemma lift_run: "lift r s = (r, s)"
  by (simp add: lift_def)

lemma in_st_run: "in_st k a s = (py_in k (s a), s)"
  by (simp add: in_st_def)

lemma getitem_st_run: "getitem_st a k s = (py_getitem (s a) k, s)"
  by (simp add: getitem_st_def)

lemma type_st_run:
  "then_st (type_st a) (\<lambda>name. lift (raise_logging_error (NotAList name))) s
     = (raise_logging_error (NotAList (type_name (s a))), s)"
  by (simp add: then_st_def type_st_def lift_def ok_def)

text \<open>
  On a store, a call of the validator produces what \<^verbatim>\<open>check_response\<close> produces on the
  content of the envelope, which is the form the loop uses.
\<close>

lemma check_response_st_run:
  "check_response_st response s = (check_response (s response), s)"
  unfolding check_response_st_def check_response_def
  by (intro then_st_run if_run lift_run in_st_run getitem_st_run type_st_run)

text \<open>
  Claim C9. The validator modifies neither the envelope nor anything else: a call leaves
  the store as it found it. It is idempotent: a second call, from the store the first call
  leaves, produces the same output as the first, the same list or the same exception, and
  the same log lines. And it is pure up to logging: the only effects of a call are log
  lines, and the list it returns is the \<^verbatim>\<open>homeworks\<close> field of the envelope, as it is.
\<close>

theorem check_response_idempotent:
  "snd (check_response_st response s) = s
   \<and> fst (check_response_st response (snd (check_response_st response s)))
       = fst (check_response_st response s)
   \<and> list_all is_log (snd (fst (check_response_st response s)))
   \<and> (fst (fst (check_response_st response s)) = Inr homeworks \<longrightarrow>
        py_getitem (s response) ''homeworks'' = ok homeworks \<and> is_list homeworks)"
  using check_response_logs [of "s response"]
    check_response_returns [of "s response" homeworks]
  by (simp add: check_response_st_run)

text \<open>
  The envelope of the scenario of the specification, at address 0 of a store that holds
  \<^verbatim>\<open>None\<close> everywhere else.
\<close>

theorem check_response_idempotent_witness:
  "snd (check_response_st 0 ((\<lambda>a. PNone)(0 := PDict
      [(''homeworks'', PList [PDict [(''homework_name'', PStr ''hw1''),
                                     (''status'', PStr ''approved'')]]),
       (''current_date'', PInt 1700000100)])))
     = (\<lambda>a. PNone)(0 := PDict
      [(''homeworks'', PList [PDict [(''homework_name'', PStr ''hw1''),
                                     (''status'', PStr ''approved'')]]),
       (''current_date'', PInt 1700000100)])
   \<and> fst (check_response_st 0 ((\<lambda>a. PNone)(0 := PDict
      [(''homeworks'', PList [PDict [(''homework_name'', PStr ''hw1''),
                                     (''status'', PStr ''approved'')]]),
       (''current_date'', PInt 1700000100)])))
     = (Inr (PList [PDict [(''homework_name'', PStr ''hw1''), (''status'', PStr ''approved'')]]),
        [Log DEBUG CheckingResponse, Log DEBUG ResponseChecked])
   \<and> fst (check_response_st 0 (snd (check_response_st 0 ((\<lambda>a. PNone)(0 := PDict
      [(''homeworks'', PList [PDict [(''homework_name'', PStr ''hw1''),
                                     (''status'', PStr ''approved'')]]),
       (''current_date'', PInt 1700000100)])))))
     = (Inr (PList [PDict [(''homework_name'', PStr ''hw1''), (''status'', PStr ''approved'')]]),
        [Log DEBUG CheckingResponse, Log DEBUG ResponseChecked])"
proof -
  let ?s = "(\<lambda>a. PNone)(0 := PDict
      [(''homeworks'', PList [PDict [(''homework_name'', PStr ''hw1''),
                                     (''status'', PStr ''approved'')]]),
       (''current_date'', PInt 1700000100)])"
  have first: "fst (check_response_st 0 ?s)
     = (Inr (PList [PDict [(''homework_name'', PStr ''hw1''), (''status'', PStr ''approved'')]]),
        [Log DEBUG CheckingResponse, Log DEBUG ResponseChecked])"
    by (simp add: check_response_st_run check_response_def ok_def)
  show ?thesis
    using check_response_idempotent [of 0 ?s "PList [PDict [(''homework_name'', PStr ''hw1''), (''status'', PStr ''approved'')]]"] first
    by simp
qed

end
